theory Spec2Isabelle
  imports Complex_Main
begin

section \<open>Python values\<close>

text \<open>
  The layers of \<^verbatim>\<open>detection.py\<close> receive Python objects: numbers, strings,
  \<^verbatim>\<open>None\<close>, lists, tuples and graph variables. A variable is a handle (its unique
  name, here a number, and the dtype it was created with). Python floats are idealised
  as reals: the layers only pass them on, compare them with zero for truthiness, or
  scale the sizes of \<^verbatim>\<open>prior_box\<close>.
\<close>

datatype error = ValueError | AssertionError | IndexError | TypeError

record variable =
  vid :: nat
  vdtype :: string

datatype pyval =
    PNone
  | PBool bool
  | PInt int
  | PFloat real
  | PStr string
  | PList "pyval list"
  | PTuple "pyval list"
  | PVar variable

text \<open>Truth value testing (\<^verbatim>\<open>if x:\<close>).\<close>

fun truthy :: "pyval \<Rightarrow> bool" where
  "truthy PNone = False"
| "truthy (PBool b) = b"
| "truthy (PInt i) = (i \<noteq> 0)"
| "truthy (PFloat r) = (r \<noteq> 0)"
| "truthy (PStr s) = (s \<noteq> [])"
| "truthy (PList xs) = (xs \<noteq> [])"
| "truthy (PTuple xs) = (xs \<noteq> [])"
| "truthy (PVar v) = True"

text \<open>\<^verbatim>\<open>isinstance(x, list)\<close>.\<close>

fun is_list :: "pyval \<Rightarrow> bool" where
  "is_list (PList xs) = True"
| "is_list v = False"

text \<open>\<^verbatim>\<open>len(x)\<close>: a \<^verbatim>\<open>TypeError\<close> for an object without a length.\<close>

fun py_len :: "pyval \<Rightarrow> error + nat" where
  "py_len (PList xs) = Inr (length xs)"
| "py_len (PTuple xs) = Inr (length xs)"
| "py_len (PStr s) = Inr (length s)"
| "py_len v = Inl TypeError"

text \<open>\<^verbatim>\<open>x[i]\<close> for an index \<open>i \<ge> 0\<close>.\<close>

fun getitem :: "pyval \<Rightarrow> nat \<Rightarrow> error + pyval" where
  "getitem (PList xs) i = (if i < length xs then Inr (xs ! i) else Inl IndexError)"
| "getitem (PTuple xs) i = (if i < length xs then Inr (xs ! i) else Inl IndexError)"
| "getitem (PStr s) i = (if i < length s then Inr (PStr [s ! i]) else Inl IndexError)"
| "getitem v i = Inl TypeError"

section \<open>The graph under construction\<close>

text \<open>
  An operator node as \<^verbatim>\<open>append_op\<close> receives it: its type, the named inputs, the
  named outputs and the attributes, each dictionary in the order the source writes it.
  The graph is the block's variables and operators and the counter of unique names.
\<close>

record node =
  op_type :: string
  op_inputs :: "(string \<times> pyval) list"
  op_outputs :: "(string \<times> variable) list"
  op_attrs :: "(string \<times> pyval) list"

record graph =
  uniq :: nat
  gvars :: "variable list"
  gops :: "node list"

definition create_tmp_variable :: "string \<Rightarrow> graph \<Rightarrow> variable \<times> graph" where
  "create_tmp_variable dtype g =
     (let v = \<lparr>vid = uniq g, vdtype = dtype\<rparr>
      in (v, g\<lparr>uniq := Suc (uniq g), gvars := gvars g @ [v]\<rparr>))"

definition append_op ::
  "string \<Rightarrow> (string \<times> pyval) list \<Rightarrow> (string \<times> variable) list \<Rightarrow> (string \<times> pyval) list
     \<Rightarrow> graph \<Rightarrow> graph" where
  "append_op t ins outs ats g =
     g\<lparr>gops := gops g @ [\<lparr>op_type = t, op_inputs = ins, op_outputs = outs, op_attrs = ats\<rparr>]\<rparr>"

text \<open>The operators a call appended: those of \<open>g'\<close> after the ones \<open>g\<close> had.\<close>

definition new_ops :: "graph \<Rightarrow> graph \<Rightarrow> node list" where
  "new_ops g g' = drop (length (gops g)) (gops g')"

text \<open>The graph \<open>g\<close> with further variables and operators, in this order.\<close>

definition ext :: "graph \<Rightarrow> variable list \<Rightarrow> node list \<Rightarrow> graph" where
  "ext g vs ns =
     g\<lparr>uniq := uniq g + length vs, gvars := gvars g @ vs, gops := gops g @ ns\<rparr>"

text \<open>The \<open>k\<close>-th temporary created on the graph \<open>g\<close>.\<close>

definition tmp :: "graph \<Rightarrow> nat \<Rightarrow> string \<Rightarrow> variable" where
  "tmp g k dtype = \<lparr>vid = uniq g + k, vdtype = dtype\<rparr>"

text \<open>An attribute of a node, by its name.\<close>

definition attr :: "node \<Rightarrow> string \<Rightarrow> pyval option" where
  "attr n k = map_of (op_attrs n) k"

text \<open>
  A layer runs on the graph and either returns or raises. An exception leaves the graph
  as it was when it was raised, so the result keeps the graph in both cases.
\<close>

type_synonym 'a run = "graph \<Rightarrow> (error + 'a) \<times> graph"

definition bnd :: "'a run \<Rightarrow> ('a \<Rightarrow> 'b run) \<Rightarrow> 'b run" where
  "bnd m f g = (case m g of (Inl e, g1) \<Rightarrow> (Inl e, g1) | (Inr x, g1) \<Rightarrow> f x g1)"

definition ok :: "(graph \<Rightarrow> 'a \<times> graph) \<Rightarrow> 'a run" where
  "ok m g = (case m g of (x, g1) \<Rightarrow> (Inr x, g1))"

definition lift :: "error + 'a \<Rightarrow> 'a run" where
  "lift r g = (r, g)"


section \<open>Layers of the sibling modules\<close>

text \<open>
  Modelled from the spec: the layers that \<^verbatim>\<open>detection.py\<close> calls and that other
  modules of the repository define (\<^verbatim>\<open>iou_similarity\<close> and \<^verbatim>\<open>box_coder\<close> from
  \<^verbatim>\<open>generate_layer_fn\<close>, \<^verbatim>\<open>ops.reshape\<close>, \<^verbatim>\<open>tensor.cast\<close>, \<^verbatim>\<open>tensor.concat\<close>,
  \<^verbatim>\<open>nn.softmax_with_cross_entropy\<close>, \<^verbatim>\<open>nn.smooth_l1\<close> and the arithmetic operators
  of variables). The spec gives them as users of the capabilities "create a temporary
  tensor" and "append an operator node": each call is one temporary for the result and
  one node of the layer's name, holding the tensor arguments as inputs and the other
  arguments as attributes, named as the call names them (for the positional calls, by
  the parameter names of the layer).
\<close>

definition layer_call ::
  "string \<Rightarrow> (string \<times> pyval) list \<Rightarrow> (string \<times> pyval) list \<Rightarrow> string
     \<Rightarrow> graph \<Rightarrow> variable \<times> graph" where
  "layer_call kind ins ats dtype g =
     (let (out, g1) = create_tmp_variable dtype g
      in (out, append_op kind ins [(''Out'', out)] ats g1))"

definition iou_similarity :: "variable \<Rightarrow> variable \<Rightarrow> graph \<Rightarrow> variable \<times> graph" where
  "iou_similarity x y =
     layer_call ''iou_similarity'' [(''x'', PVar x), (''y'', PVar y)] [] (vdtype x)"

definition box_coder ::
  "variable \<Rightarrow> pyval \<Rightarrow> variable \<Rightarrow> string \<Rightarrow> graph \<Rightarrow> variable \<times> graph" where
  "box_coder prior_box prior_box_var target_box code_type =
     layer_call ''box_coder''
       [(''prior_box'', PVar prior_box), (''prior_box_var'', prior_box_var),
        (''target_box'', PVar target_box)]
       [(''code_type'', PStr code_type)] (vdtype prior_box)"

definition reshape :: "variable \<Rightarrow> pyval \<Rightarrow> graph \<Rightarrow> variable \<times> graph" where
  "reshape x shape = layer_call ''reshape'' [(''x'', PVar x)] [(''shape'', shape)] (vdtype x)"

definition cast :: "variable \<Rightarrow> string \<Rightarrow> graph \<Rightarrow> variable \<times> graph" where
  "cast x dtype = layer_call ''cast'' [(''x'', PVar x)] [(''dtype'', PStr dtype)] dtype"

definition concat :: "variable list \<Rightarrow> graph \<Rightarrow> variable \<times> graph" where
  "concat input =
     layer_call ''concat'' [(''input'', PList (map PVar input))] []
       (case input of [] \<Rightarrow> [] | x # xs \<Rightarrow> vdtype x)"

definition softmax_with_cross_entropy ::
  "variable \<Rightarrow> variable \<Rightarrow> graph \<Rightarrow> variable \<times> graph" where
  "softmax_with_cross_entropy logits label =
     layer_call ''softmax_with_cross_entropy''
       [(''logits'', PVar logits), (''label'', PVar label)] [] (vdtype logits)"

definition smooth_l1 :: "variable \<Rightarrow> variable \<Rightarrow> graph \<Rightarrow> variable \<times> graph" where
  "smooth_l1 x y = layer_call ''smooth_l1'' [(''x'', PVar x), (''y'', PVar y)] [] (vdtype x)"

text \<open>
  \<^verbatim>\<open>a * b\<close> and \<^verbatim>\<open>a + b\<close> where at least one operand is a variable: the other may be
  a Python number (\<^verbatim>\<open>conf_loss_weight * conf_loss\<close>, the weights being floats).
\<close>

definition elementwise ::
  "string \<Rightarrow> pyval \<Rightarrow> pyval \<Rightarrow> string \<Rightarrow> graph \<Rightarrow> variable \<times> graph" where
  "elementwise kind a b dtype = layer_call kind [(''x'', a), (''y'', b)] [] dtype"

section \<open>detection\_output\<close>

definition detection_output ::
  "variable \<Rightarrow> variable \<Rightarrow> variable \<Rightarrow> pyval \<Rightarrow> pyval \<Rightarrow> pyval \<Rightarrow> pyval \<Rightarrow> pyval \<Rightarrow> pyval
     \<Rightarrow> pyval \<Rightarrow> graph \<Rightarrow> variable \<times> graph" where
  "detection_output scores loc prior_box prior_box_var background_label nms_threshold
       nms_top_k keep_top_k score_threshold nms_eta g =
     (let (decoded_box, g1) = box_coder prior_box prior_box_var loc ''decode_center_size'' g;
          (nmsed_outs, g2) = create_tmp_variable (vdtype decoded_box) g1;
          g3 = append_op ''multiclass_nms''
                 [(''Scores'', PVar scores), (''BBoxes'', PVar decoded_box)]
                 [(''Out'', nmsed_outs)]
                 [(''background_label'', PInt 0),
                  (''nms_threshold'', nms_threshold),
                  (''nms_top_k'', nms_top_k),
                  (''keep_top_k'', keep_top_k),
                  (''score_threshold'', score_threshold),
                  (''nms_eta'', PFloat 1.0)] g2
      in (nmsed_outs, g3))"

section \<open>prior\_box\<close>

text \<open>
  \<^verbatim>\<open>shape\<close> gives the shape the runtime's shape inference has assigned to a variable
  (\<^verbatim>\<open>var.shape\<close>); the inference is not part of this module, so the layers that read
  a shape take it as a parameter.
\<close>

definition prior_box_inner ::
  "variable \<Rightarrow> variable \<Rightarrow> pyval \<Rightarrow> pyval \<Rightarrow> pyval \<Rightarrow> pyval \<Rightarrow> pyval \<Rightarrow> pyval \<Rightarrow> pyval \<Rightarrow> pyval
     \<Rightarrow> pyval \<Rightarrow> graph \<Rightarrow> (variable \<times> variable) \<times> graph" where
  "prior_box_inner input image' min_sizes max_sizes aspect_ratios variance flip' clip
       step_w step_h offset g =
     (let dtype = vdtype input;
          (box, g1) = create_tmp_variable dtype g;
          (var, g2) = create_tmp_variable dtype g1;
          g3 = append_op ''prior_box''
                 [(''Input'', PVar input), (''Image'', PVar image')]
                 [(''Boxes'', box), (''Variances'', var)]
                 [(''min_sizes'', min_sizes),
                  (''max_sizes'', max_sizes),
                  (''aspect_ratios'', aspect_ratios),
                  (''variances'', variance),
                  (''flip'', flip'),
                  (''clip'', clip),
                  (''step_w'', step_w),
                  (''step_h'', step_h),
                  (''offset'', offset)] g2
      in ((box, var), g3))"

definition reshape_with_axis :: "(variable \<Rightarrow> int list) \<Rightarrow> variable \<Rightarrow> nat \<Rightarrow> variable run" where
  "reshape_with_axis shape input axis =
     (if \<not> (axis > 0 \<and> axis < length (shape input)) then lift (Inl ValueError)
      else case drop axis (shape input) of
             [] \<Rightarrow> lift (Inl TypeError)
           | d # ds \<Rightarrow> ok (reshape input (PList [PInt (- 1), PInt (foldl (*) d ds)])))"

text \<open>\<^verbatim>\<open>xrange(start, stop, step)\<close>, which raises \<^verbatim>\<open>ValueError\<close> for a zero step.\<close>

definition xrange :: "int \<Rightarrow> int \<Rightarrow> int \<Rightarrow> error + int list" where
  "xrange start stop step =
     (if step = 0 then Inl ValueError
      else if step > 0 then
        Inr (map (\<lambda>k. start + int k * step) [0..<nat ((stop - start + step - 1) div step)])
      else
        Inr (map (\<lambda>k. start + int k * step) [0..<nat ((start - stop - step - 1) div (- step))]))"

text \<open>
  Lines 264 to 275: the sizes are asserted for at most two inputs, and computed from the
  ratios otherwise (integer division, as Python 2 divides two ints).
\<close>

definition prior_sizes ::
  "nat \<Rightarrow> int \<Rightarrow> int \<Rightarrow> int \<Rightarrow> pyval \<Rightarrow> pyval \<Rightarrow> error + (pyval \<times> pyval)" where
  "prior_sizes num_layer min_ratio max_ratio base_size min_sizes max_sizes =
     (if num_layer \<le> 2 then
        if \<not> (min_sizes \<noteq> PNone \<and> max_sizes \<noteq> PNone) then Inl AssertionError
        else case py_len min_sizes of
          Inl e \<Rightarrow> Inl e
        | Inr n \<Rightarrow>
            if n \<noteq> num_layer then Inl AssertionError
            else (case py_len max_sizes of
                    Inl e \<Rightarrow> Inl e
                  | Inr m \<Rightarrow>
                      if m \<noteq> num_layer then Inl AssertionError
                      else Inr (min_sizes, max_sizes))
      else
        let step = (max_ratio - min_ratio) div (int num_layer - 2)
        in case xrange min_ratio (max_ratio + 1) step of
          Inl e \<Rightarrow> Inl e
        | Inr ratios \<Rightarrow>
            Inr (PList (PFloat (real_of_int base_size * 0.10)
                   # map (\<lambda>ratio. PFloat (real_of_int (base_size * ratio) / 100)) ratios),
                 PList (PFloat (real_of_int base_size * 0.20)
                   # map (\<lambda>ratio. PFloat (real_of_int (base_size * (ratio + step)) / 100)) ratios)))"

text \<open>
  The test of lines 278, 284, 289 and 294:
  \<^verbatim>\<open>isinstance(x, list) and len(x) == num_layer\<close>.
\<close>

definition list_of_len :: "pyval \<Rightarrow> nat \<Rightarrow> bool" where
  "list_of_len x num_layer = (is_list x \<and> py_len x = Inr num_layer)"

text \<open>Lines 277 to 299; the result is the pair \<^verbatim>\<open>(step_w, step_h)\<close> the loop uses.\<close>

definition check_steps :: "nat \<Rightarrow> pyval \<Rightarrow> pyval \<Rightarrow> pyval \<Rightarrow> pyval \<Rightarrow> error + (pyval \<times> pyval)" where
  "check_steps num_layer aspect_ratios steps step_w step_h =
     (if truthy aspect_ratios \<and> \<not> list_of_len aspect_ratios num_layer then Inl ValueError
      else if truthy step_h \<and> \<not> list_of_len step_h num_layer then Inl ValueError
      else if truthy step_w \<and> \<not> list_of_len step_w num_layer then Inl ValueError
      else if truthy steps then
        if \<not> list_of_len steps num_layer then Inl ValueError else Inr (steps, steps)
      else Inr (step_w, step_h))"

text \<open>The body of the loop of lines 303 to 322, for the input \<open>i\<close>.\<close>

definition prior_box_layer ::
  "variable \<Rightarrow> pyval \<Rightarrow> pyval \<Rightarrow> pyval \<Rightarrow> pyval \<Rightarrow> pyval \<Rightarrow> pyval \<Rightarrow> pyval \<Rightarrow> pyval \<Rightarrow> pyval
     \<Rightarrow> nat \<Rightarrow> variable \<Rightarrow> (variable \<times> variable) run" where
  "prior_box_layer image' min_sizes max_sizes aspect_ratios variance flip' clip step_w step_h
       offset i input =
     bnd (lift (getitem min_sizes i)) (\<lambda>min_size.
     bnd (lift (getitem max_sizes i)) (\<lambda>max_size.
     bnd (lift (if truthy aspect_ratios then
                  (case getitem aspect_ratios i of
                     Inl e \<Rightarrow> Inl e
                   | Inr a \<Rightarrow> Inr (if \<not> is_list a then PList [a] else a))
                else Inr (PList []))) (\<lambda>aspect_ratio.
     bnd (lift (if truthy step_w then getitem step_w i else Inr (PFloat 0.0))) (\<lambda>sw.
     bnd (lift (if truthy step_w then getitem step_h i else Inr (PFloat 0.0))) (\<lambda>sh.
     ok (prior_box_inner input image'
           (if \<not> is_list min_size then PList [min_size] else min_size)
           (if \<not> is_list max_size then PList [max_size] else max_size)
           aspect_ratio variance flip' clip sw sh offset))))))"

text \<open>The loop over \<^verbatim>\<open>enumerate(inputs)\<close>, collecting the boxes and the variances.\<close>

fun prior_box_loop ::
  "(nat \<Rightarrow> variable \<Rightarrow> (variable \<times> variable) run) \<Rightarrow> nat \<Rightarrow> variable list
     \<Rightarrow> variable list \<Rightarrow> variable list \<Rightarrow> (variable list \<times> variable list) run" where
  "prior_box_loop body i [] box_results var_results g = (Inr (box_results, var_results), g)"
| "prior_box_loop body i (input # rest) box_results var_results g =
     (case body i input g of
        (Inl e, g1) \<Rightarrow> (Inl e, g1)
      | (Inr (box, var), g1) \<Rightarrow>
          prior_box_loop body (Suc i) rest (box_results @ [box]) (var_results @ [var]) g1)"

text \<open>The loop of lines 330 to 332 over the collected results.\<close>

fun reshape_loop ::
  "(variable \<Rightarrow> int list) \<Rightarrow> variable list \<Rightarrow> variable list \<Rightarrow> variable list \<Rightarrow> variable list
     \<Rightarrow> (variable list \<times> variable list) run" where
  "reshape_loop shape (b # bs) (v # vs) reshaped_boxes reshaped_vars g =
     (case reshape_with_axis shape b 3 g of
        (Inl e, g1) \<Rightarrow> (Inl e, g1)
      | (Inr rb, g1) \<Rightarrow>
          (case reshape_with_axis shape v 3 g1 of
             (Inl e, g2) \<Rightarrow> (Inl e, g2)
           | (Inr rv, g2) \<Rightarrow>
               reshape_loop shape bs vs (reshaped_boxes @ [rb]) (reshaped_vars @ [rv]) g2))"
| "reshape_loop shape bs vs reshaped_boxes reshaped_vars g =
     (Inr (reshaped_boxes, reshaped_vars), g)"

definition prior_box ::
  "(variable \<Rightarrow> int list) \<Rightarrow> variable list \<Rightarrow> variable \<Rightarrow> int \<Rightarrow> int \<Rightarrow> pyval \<Rightarrow> int \<Rightarrow> pyval
     \<Rightarrow> pyval \<Rightarrow> pyval \<Rightarrow> pyval \<Rightarrow> pyval \<Rightarrow> pyval \<Rightarrow> pyval \<Rightarrow> pyval \<Rightarrow> pyval \<Rightarrow> pyval
     \<Rightarrow> (variable \<times> variable) run" where
  "prior_box shape inputs image' min_ratio max_ratio aspect_ratios base_size steps step_w
       step_h offset variance flip' clip min_sizes max_sizes name =
     (let num_layer = length inputs in
      bnd (lift (prior_sizes num_layer min_ratio max_ratio base_size min_sizes max_sizes))
        (\<lambda>(min_sizes, max_sizes).
      bnd (lift (check_steps num_layer aspect_ratios steps step_w step_h))
        (\<lambda>(step_w, step_h).
      bnd (prior_box_loop
             (prior_box_layer image' min_sizes max_sizes aspect_ratios variance flip' clip
                step_w step_h offset) 0 inputs [] [])
        (\<lambda>(box_results, var_results).
      if length box_results = 1 then
        lift (Inr (box_results ! 0, var_results ! 0))
      else
        bnd (reshape_loop shape box_results var_results [] [])
          (\<lambda>(reshaped_boxes, reshaped_vars).
        bnd (ok (concat reshaped_boxes)) (\<lambda>box.
        bnd (ok (concat reshaped_vars)) (\<lambda>var.
        lift (Inr (box, var)))))))))"

section \<open>bipartite\_match and target\_assign\<close>

definition bipartite_match :: "variable \<Rightarrow> pyval \<Rightarrow> graph \<Rightarrow> (variable \<times> variable) \<times> graph" where
  "bipartite_match dist_matrix name g =
     (let (match_indices, g1) = create_tmp_variable ''int32'' g;
          (match_distance, g2) = create_tmp_variable (vdtype dist_matrix) g1;
          g3 = append_op ''bipartite_match''
                 [(''DistMat'', PVar dist_matrix)]
                 [(''ColToRowMatchIndices'', match_indices),
                  (''ColToRowMatchDist'', match_distance)]
                 [] g2
      in ((match_indices, match_distance), g3))"

definition target_assign ::
  "variable \<Rightarrow> variable \<Rightarrow> pyval \<Rightarrow> pyval \<Rightarrow> pyval \<Rightarrow> graph \<Rightarrow> (variable \<times> variable) \<times> graph" where
  "target_assign input matched_indices negative_indices mismatch_value name g =
     (let (out, g1) = create_tmp_variable (vdtype input) g;
          (out_weight, g2) = create_tmp_variable ''float32'' g1;
          g3 = append_op ''target_assign''
                 [(''X'', PVar input),
                  (''MatchIndices'', PVar matched_indices),
                  (''NegIndices'', negative_indices)]
                 [(''Out'', out), (''OutWeight'', out_weight)]
                 [(''mismatch_value'', mismatch_value)] g2
      in ((out, out_weight), g3))"

section \<open>ssd\_loss\<close>

text \<open>\<^verbatim>\<open>__reshape_to_2d\<close>: \<^verbatim>\<open>var.shape[-1]\<close> raises \<^verbatim>\<open>IndexError\<close> on an empty shape.\<close>

definition reshape_to_2d :: "(variable \<Rightarrow> int list) \<Rightarrow> variable \<Rightarrow> variable run" where
  "reshape_to_2d shape var =
     (if shape var = [] then lift (Inl IndexError)
      else ok (reshape var (PList [PInt (- 1), PInt (last (shape var))])))"

definition mine_hard_examples ::
  "variable \<Rightarrow> variable \<Rightarrow> variable \<Rightarrow> variable \<Rightarrow> variable \<Rightarrow> pyval \<Rightarrow> pyval \<Rightarrow> pyval
     \<Rightarrow> graph \<Rightarrow> unit \<times> graph" where
  "mine_hard_examples conf_loss matched_indices matched_dist neg_indices
       updated_matched_indices neg_pos_ratio mining_type sample_size g =
     ((), append_op ''mine_hard_examples''
            [(''ClsLoss'', PVar conf_loss),
             (''LocLoss'', PNone),
             (''MatchIndices'', PVar matched_indices),
             (''MatchDist'', PVar matched_dist)]
            [(''NegIndices'', neg_indices),
             (''UpdatedMatchIndices'', updated_matched_indices)]
            [(''neg_pos_ratio'', neg_pos_ratio),
             (''neg_dist_threshold'', neg_pos_ratio),
             (''mining_type'', mining_type),
             (''sample_size'', sample_size)] g)"

definition ssd_loss ::
  "(variable \<Rightarrow> int list) \<Rightarrow> variable \<Rightarrow> variable \<Rightarrow> variable \<Rightarrow> variable \<Rightarrow> variable \<Rightarrow> pyval
     \<Rightarrow> pyval \<Rightarrow> pyval \<Rightarrow> pyval \<Rightarrow> pyval \<Rightarrow> real \<Rightarrow> real \<Rightarrow> pyval \<Rightarrow> pyval \<Rightarrow> pyval
     \<Rightarrow> variable run" where
  "ssd_loss shape location confidence gt_box gt_label prior_box' prior_box_var
       background_label overlap_threshold neg_pos_ratio neg_overlap loc_loss_weight
       conf_loss_weight match_type mining_type sample_size =
     (if mining_type \<noteq> PStr ''max_negative'' then lift (Inl ValueError)
      else case shape confidence of
        [num, num_prior, num_class] \<Rightarrow>
          bnd (ok (iou_similarity gt_box prior_box')) (\<lambda>iou.
          bnd (ok (bipartite_match iou PNone)) (\<lambda>(matched_indices, matched_dist).
          bnd (ok (reshape gt_label (PTuple (map PInt (shape gt_label @ [1]))))) (\<lambda>gt_label.
          bnd (ok (target_assign gt_label matched_indices PNone background_label PNone))
            (\<lambda>(target_label, uu).
          bnd (reshape_to_2d shape confidence) (\<lambda>confidence.
          bnd (ok (cast target_label ''int64'')) (\<lambda>target_label.
          bnd (reshape_to_2d shape target_label) (\<lambda>target_label.
          bnd (ok (softmax_with_cross_entropy confidence target_label)) (\<lambda>conf_loss.
          bnd (ok (reshape conf_loss (PTuple [PInt num, PInt num_prior]))) (\<lambda>conf_loss.
          bnd (ok (create_tmp_variable ''int32'')) (\<lambda>neg_indices.
          bnd (ok (create_tmp_variable (vdtype matched_indices))) (\<lambda>updated_matched_indices.
          bnd (ok (mine_hard_examples conf_loss matched_indices matched_dist neg_indices
                     updated_matched_indices neg_pos_ratio mining_type sample_size)) (\<lambda>uu.
          bnd (ok (box_coder prior_box' prior_box_var gt_box ''encode_center_size''))
            (\<lambda>encoded_bbox.
          bnd (ok (target_assign encoded_bbox updated_matched_indices PNone background_label
                     PNone)) (\<lambda>(target_bbox, target_loc_weight).
          bnd (ok (target_assign gt_label updated_matched_indices (PVar neg_indices)
                     background_label PNone)) (\<lambda>(target_label, target_conf_weight).
          bnd (reshape_to_2d shape target_label) (\<lambda>target_label.
          bnd (ok (cast target_label ''int64'')) (\<lambda>target_label.
          bnd (ok (softmax_with_cross_entropy confidence target_label)) (\<lambda>conf_loss.
          bnd (reshape_to_2d shape target_conf_weight) (\<lambda>target_conf_weight.
          bnd (ok (elementwise ''elementwise_mul'' (PVar conf_loss) (PVar target_conf_weight)
                     (vdtype conf_loss))) (\<lambda>conf_loss.
          bnd (reshape_to_2d shape location) (\<lambda>location.
          bnd (reshape_to_2d shape target_bbox) (\<lambda>target_bbox.
          bnd (ok (smooth_l1 location target_bbox)) (\<lambda>loc_loss.
          bnd (reshape_to_2d shape target_loc_weight) (\<lambda>target_loc_weight.
          bnd (ok (elementwise ''elementwise_mul'' (PVar loc_loss) (PVar target_loc_weight)
                     (vdtype loc_loss))) (\<lambda>loc_loss.
          bnd (ok (elementwise ''elementwise_mul'' (PFloat conf_loss_weight) (PVar conf_loss)
                     (vdtype conf_loss))) (\<lambda>weighted_conf.
          bnd (ok (elementwise ''elementwise_mul'' (PFloat loc_loss_weight) (PVar loc_loss)
                     (vdtype loc_loss))) (\<lambda>weighted_loc.
          ok (elementwise ''elementwise_add'' (PVar weighted_conf) (PVar weighted_loc)
                (vdtype weighted_conf)))))))))))))))))))))))))))))
      | _ \<Rightarrow> lift (Inl ValueError))"

section \<open>Reading the constructed graph\<close>

text \<open>
  Some node of the list has this type and these inputs and gives the variable \<open>v\<close> in
  its output \<open>slot\<close>.
\<close>

definition yields ::
  "node list \<Rightarrow> string \<Rightarrow> (string \<times> pyval) list \<Rightarrow> string \<Rightarrow> variable \<Rightarrow> bool" where
  "yields ns kind ins slot v =
     list_ex (\<lambda>n. op_type n = kind \<and> op_inputs n = ins \<and> (slot, v) \<in> set (op_outputs n)) ns"


text \<open>
  Modelled from the spec: the shapes the runtime gives the results of the operators that
  compose the loss (section 4.6). A reshape keeps the number of elements and resolves one
  \<open>-1\<close>; the cross entropy of logits \<open>[rows, classes]\<close> is one scalar per row,
  \<open>[rows, 1]\<close>; an elementwise product or sum, also with a Python scalar, has the shape
  of its tensor operand.
\<close>

fun py_int :: "pyval \<Rightarrow> int" where
  "py_int (PInt i) = i"
| "py_int v = 0"

fun dims_of :: "pyval \<Rightarrow> int list" where
  "dims_of (PList xs) = map py_int xs"
| "dims_of (PTuple xs) = map py_int xs"
| "dims_of v = []"

definition reshape_dims :: "int list \<Rightarrow> int list \<Rightarrow> int list" where
  "reshape_dims src tgt =
     map (\<lambda>d. if d = - 1 then prod_list src div prod_list (filter (\<lambda>e. e \<noteq> - 1) tgt) else d)
       tgt"

definition out_shape :: "(variable \<Rightarrow> int list) \<Rightarrow> node \<Rightarrow> int list option" where
  "out_shape shape n =
     (if op_type n = ''reshape'' then
        (case map_of (op_inputs n) ''x'' of
           Some (PVar x) \<Rightarrow>
             (case attr n ''shape'' of
                Some s \<Rightarrow> Some (reshape_dims (shape x) (dims_of s))
              | None \<Rightarrow> None)
         | _ \<Rightarrow> None)
      else if op_type n = ''softmax_with_cross_entropy'' then
        (case map_of (op_inputs n) ''logits'' of
           Some (PVar x) \<Rightarrow> Some [hd (shape x), 1]
         | _ \<Rightarrow> None)
      else if op_type n = ''elementwise_mul'' \<or> op_type n = ''elementwise_add'' then
        (case map_of (op_inputs n) ''x'' of
           Some (PVar x) \<Rightarrow> Some (shape x)
         | _ \<Rightarrow>
             (case map_of (op_inputs n) ''y'' of
                Some (PVar y) \<Rightarrow> Some (shape y)
              | _ \<Rightarrow> None))
      else None)"

definition shape_rule :: "(variable \<Rightarrow> int list) \<Rightarrow> node \<Rightarrow> bool" where
  "shape_rule shape n =
     (case out_shape shape n of
        None \<Rightarrow> True
      | Some s \<Rightarrow> list_all (\<lambda>(slot, v). shape v = s) (op_outputs n))"

text \<open>
  A sample call of \<^verbatim>\<open>ssd_loss\<close>: a batch of 2 with 3 priors, 5 classes and 4 ground-truth
  boxes; the variables 0 to 5 are the inputs, and \<open>sample_shape\<close> lists the shapes of
  the inputs and of the temporaries in the order of their creation.
\<close>

definition V :: "nat \<Rightarrow> variable" where
  "V k = \<lparr>vid = k, vdtype = ''float32''\<rparr>"

definition G0 :: graph where
  "G0 = \<lparr>uniq = 6, gvars = [], gops = []\<rparr>"

definition sample_shapes :: "int list list" where
  "sample_shapes =
     [[2, 3, 4], [2, 3, 5], [4, 4], [4, 1], [3, 4], [3, 4],
      [4, 3], [2, 3], [2, 3], [4, 1, 1], [2, 3, 1], [2, 3, 1],
      [6, 5], [2, 3, 1], [6, 1], [6, 1], [2, 3], [1, 1],
      [2, 3], [4, 3, 4], [2, 3, 4], [2, 3, 1], [2, 3, 1], [2, 3, 1],
      [6, 1], [6, 1], [6, 1], [6, 1], [6, 1], [6, 4],
      [6, 4], [6, 1], [6, 1], [6, 1], [6, 1], [6, 1], [6, 1]]"

definition sample_shape :: "variable \<Rightarrow> int list" where
  "sample_shape v = (if vid v < length sample_shapes then sample_shapes ! vid v else [1])"

section \<open>Properties of detection\_output\<close>

lemmas graph_defs = create_tmp_variable_def append_op_def layer_call_def new_ops_def

lemmas layer_defs = iou_similarity_def box_coder_def reshape_def cast_def concat_def
  softmax_with_cross_entropy_def smooth_l1_def elementwise_def

text \<open>
  C9. The \<^verbatim>\<open>multiclass_nms\<close> operator that \<^verbatim>\<open>detection_output\<close> appends always has
  the attributes \<^verbatim>\<open>background_label = 0\<close> and \<^verbatim>\<open>nms_eta = 1.0\<close>, whatever the caller
  passes for these two arguments; \<^verbatim>\<open>nms_threshold\<close>, \<^verbatim>\<open>nms_top_k\<close>, \<^verbatim>\<open>keep_top_k\<close>
  and \<^verbatim>\<open>score_threshold\<close> are forwarded. Hence two calls that differ only in
  \<^verbatim>\<open>background_label\<close> or \<^verbatim>\<open>nms_eta\<close> return the same variable and the same graph.
\<close>

theorem detection_output_fixed_attrs:
  assumes "detection_output scores loc pb pbv background_label nms_threshold nms_top_k
             keep_top_k score_threshold nms_eta g = (out, g')"
  shows "\<exists>coder nms. new_ops g g' = [coder, nms]
           \<and> op_type coder = ''box_coder''
           \<and> op_type nms = ''multiclass_nms''
           \<and> map_of (op_attrs nms) ''background_label'' = Some (PInt 0)
           \<and> map_of (op_attrs nms) ''nms_eta'' = Some (PFloat 1.0)
           \<and> map_of (op_attrs nms) ''nms_threshold'' = Some nms_threshold
           \<and> map_of (op_attrs nms) ''nms_top_k'' = Some nms_top_k
           \<and> map_of (op_attrs nms) ''keep_top_k'' = Some keep_top_k
           \<and> map_of (op_attrs nms) ''score_threshold'' = Some score_threshold
           \<and> detection_output scores loc pb pbv background_label2 nms_threshold nms_top_k
                keep_top_k score_threshold nms_eta2 g = (out, g')"
  using assms
  by (auto simp: detection_output_def box_coder_def graph_defs Let_def)

theorem detection_output_fixed_attrs_witness:
  "\<exists>out g' coder nms.
     detection_output \<lparr>vid = 0, vdtype = ''float32''\<rparr> \<lparr>vid = 1, vdtype = ''float32''\<rparr>
       \<lparr>vid = 2, vdtype = ''float32''\<rparr> (PVar \<lparr>vid = 3, vdtype = ''float32''\<rparr>)
       (PInt 7) (PFloat 0.3) (PInt 400) (PInt 200) (PFloat 0.01) (PFloat 0.5)
       \<lparr>uniq = 4, gvars = [], gops = []\<rparr> = (out, g')
     \<and> new_ops \<lparr>uniq = 4, gvars = [], gops = []\<rparr> g' = [coder, nms]
     \<and> map_of (op_attrs nms) ''background_label'' = Some (PInt 0)
     \<and> map_of (op_attrs nms) ''nms_eta'' = Some (PFloat 1.0)"
proof -
  obtain out g' where run:
    "detection_output \<lparr>vid = 0, vdtype = ''float32''\<rparr> \<lparr>vid = 1, vdtype = ''float32''\<rparr>
       \<lparr>vid = 2, vdtype = ''float32''\<rparr> (PVar \<lparr>vid = 3, vdtype = ''float32''\<rparr>)
       (PInt 7) (PFloat 0.3) (PInt 400) (PInt 200) (PFloat 0.01) (PFloat 0.5)
       \<lparr>uniq = 4, gvars = [], gops = []\<rparr> = (out, g')"
    by (cases "detection_output \<lparr>vid = 0, vdtype = ''float32''\<rparr> \<lparr>vid = 1, vdtype = ''float32''\<rparr>
       \<lparr>vid = 2, vdtype = ''float32''\<rparr> (PVar \<lparr>vid = 3, vdtype = ''float32''\<rparr>)
       (PInt 7) (PFloat 0.3) (PInt 400) (PInt 200) (PFloat 0.01) (PFloat 0.5)
       \<lparr>uniq = 4, gvars = [], gops = []\<rparr>") auto
  from detection_output_fixed_attrs [OF run] show ?thesis
    using run by blast
qed

section \<open>Properties of ssd\_loss\<close>

lemma ext_ext: "ext (ext g vs ns) vs' ns' = ext g (vs @ vs') (ns @ ns')"
  by (simp add: ext_def)

lemma uniq_ext: "uniq (ext g vs ns) = uniq g + length vs"
  by (simp add: ext_def)

lemma new_ops_ext: "new_ops g (ext g vs ns) = ns"
  by (simp add: ext_def new_ops_def)

lemma create_ext: "create_tmp_variable dt g = (\<lparr>vid = uniq g, vdtype = dt\<rparr>, ext g [\<lparr>vid = uniq g, vdtype = dt\<rparr>] [])"
  by (simp add: create_tmp_variable_def ext_def Let_def)

lemma append_ext: "append_op t ins outs ats g = ext g [] [\<lparr>op_type = t, op_inputs = ins, op_outputs = outs, op_attrs = ats\<rparr>]"
  by (simp add: append_op_def ext_def)

lemma layer_ext: "layer_call kind ins ats dt g =
   (\<lparr>vid = uniq g, vdtype = dt\<rparr>, ext g [\<lparr>vid = uniq g, vdtype = dt\<rparr>]
      [\<lparr>op_type = kind, op_inputs = ins, op_outputs = [(''Out'', \<lparr>vid = uniq g, vdtype = dt\<rparr>)], op_attrs = ats\<rparr>])"
  by (simp add: layer_call_def create_ext append_ext ext_ext)

lemma bnd_Inr_iff: "bnd m f g = (Inr y, g') \<longleftrightarrow> (\<exists>x g1. m g = (Inr x, g1) \<and> f x g1 = (Inr y, g'))"
  by (auto simp: bnd_def split: prod.splits sum.splits)

lemma ok_Inr_iff: "ok m g = (Inr x, g1) \<longleftrightarrow> m g = (x, g1)"
  by (auto simp: ok_def split: prod.splits)

lemma reshape_to_2d_Inr_iff: "reshape_to_2d shape v g = (Inr x, g1) \<longleftrightarrow>
   shape v \<noteq> [] \<and> reshape v (PList [PInt (- 1), PInt (last (shape v))]) g = (x, g1)"
  by (auto simp: reshape_to_2d_def lift_def ok_def split: prod.splits)

lemmas run_simps = bnd_Inr_iff ok_Inr_iff reshape_to_2d_Inr_iff iou_similarity_def box_coder_def
  reshape_def cast_def softmax_with_cross_entropy_def smooth_l1_def elementwise_def
  layer_ext create_ext append_ext ext_ext uniq_ext bipartite_match_def target_assign_def
  mine_hard_examples_def Let_def

lemma ssd_loss_Inr_start:
  assumes "ssd_loss shape location confidence gt_box gt_label pb pbv
       background_label overlap_threshold neg_pos_ratio neg_overlap loc_loss_weight
       conf_loss_weight match_type mining_type sample_size g = (Inr loss, g')"
  shows "mining_type = PStr ''max_negative'' \<and> (\<exists>a b c. shape confidence = [a, b, c])"
  using assms by (auto simp: ssd_loss_def lift_def split: if_splits list.splits)


lemma ssd_loss_graph:
  assumes "ssd_loss shape location confidence gt_box gt_label pb pbv
       background_label overlap_threshold neg_pos_ratio neg_overlap loc_loss_weight
       conf_loss_weight match_type mining_type sample_size g = (Inr loss, g')"
  shows "loss = tmp g 30 (vdtype confidence) \<and> new_ops g g' =
    [\<lparr>op_type = ''iou_similarity'',
      op_inputs = [(''x'', PVar gt_box), (''y'', PVar pb)],
      op_outputs = [(''Out'', tmp g 0 (vdtype gt_box))], op_attrs = []\<rparr>,
     \<lparr>op_type = ''bipartite_match'',
      op_inputs = [(''DistMat'', PVar (tmp g 0 (vdtype gt_box)))],
      op_outputs = [(''ColToRowMatchIndices'', tmp g 1 ''int32''),
                    (''ColToRowMatchDist'', tmp g 2 (vdtype gt_box))],
      op_attrs = []\<rparr>,
     \<lparr>op_type = ''reshape'',
      op_inputs = [(''x'', PVar gt_label)],
      op_outputs = [(''Out'', tmp g 3 (vdtype gt_label))],
      op_attrs = [(''shape'', PTuple (map PInt (shape gt_label @ [1])))]\<rparr>,
     \<lparr>op_type = ''target_assign'',
      op_inputs = [(''X'', PVar (tmp g 3 (vdtype gt_label))),
                   (''MatchIndices'', PVar (tmp g 1 ''int32'')),
                   (''NegIndices'', PNone)],
      op_outputs = [(''Out'', tmp g 4 (vdtype gt_label)), (''OutWeight'', tmp g 5 ''float32'')],
      op_attrs = [(''mismatch_value'', background_label)]\<rparr>,
     \<lparr>op_type = ''reshape'',
      op_inputs = [(''x'', PVar confidence)],
      op_outputs = [(''Out'', tmp g 6 (vdtype confidence))],
      op_attrs = [(''shape'', PList [PInt (- 1), PInt (last (shape confidence))])]\<rparr>,
     \<lparr>op_type = ''cast'',
      op_inputs = [(''x'', PVar (tmp g 4 (vdtype gt_label)))],
      op_outputs = [(''Out'', tmp g 7 ''int64'')],
      op_attrs = [(''dtype'', PStr ''int64'')]\<rparr>,
     \<lparr>op_type = ''reshape'',
      op_inputs = [(''x'', PVar (tmp g 7 ''int64''))],
      op_outputs = [(''Out'', tmp g 8 ''int64'')],
      op_attrs = [(''shape'', PList [PInt (- 1), PInt (last (shape (tmp g 7 ''int64'')))])]\<rparr>,
     \<lparr>op_type = ''softmax_with_cross_entropy'',
      op_inputs = [(''logits'', PVar (tmp g 6 (vdtype confidence))),
                   (''label'', PVar (tmp g 8 ''int64''))],
      op_outputs = [(''Out'', tmp g 9 (vdtype confidence))], op_attrs = []\<rparr>,
     \<lparr>op_type = ''reshape'',
      op_inputs = [(''x'', PVar (tmp g 9 (vdtype confidence)))],
      op_outputs = [(''Out'', tmp g 10 (vdtype confidence))],
      op_attrs = [(''shape'', PTuple [PInt (shape confidence ! 0), PInt (shape confidence ! 1)])]\<rparr>,
     \<lparr>op_type = ''mine_hard_examples'',
      op_inputs = [(''ClsLoss'', PVar (tmp g 10 (vdtype confidence))),
                   (''LocLoss'', PNone),
                   (''MatchIndices'', PVar (tmp g 1 ''int32'')),
                   (''MatchDist'', PVar (tmp g 2 (vdtype gt_box)))],
      op_outputs = [(''NegIndices'', tmp g 11 ''int32''),
                    (''UpdatedMatchIndices'', tmp g 12 ''int32'')],
      op_attrs = [(''neg_pos_ratio'', neg_pos_ratio),
                  (''neg_dist_threshold'', neg_pos_ratio),
                  (''mining_type'', mining_type),
                  (''sample_size'', sample_size)]\<rparr>,
     \<lparr>op_type = ''box_coder'',
      op_inputs = [(''prior_box'', PVar pb), (''prior_box_var'', pbv),
                   (''target_box'', PVar gt_box)],
      op_outputs = [(''Out'', tmp g 13 (vdtype pb))],
      op_attrs = [(''code_type'', PStr ''encode_center_size'')]\<rparr>,
     \<lparr>op_type = ''target_assign'',
      op_inputs = [(''X'', PVar (tmp g 13 (vdtype pb))),
                   (''MatchIndices'', PVar (tmp g 12 ''int32'')),
                   (''NegIndices'', PNone)],
      op_outputs = [(''Out'', tmp g 14 (vdtype pb)), (''OutWeight'', tmp g 15 ''float32'')],
      op_attrs = [(''mismatch_value'', background_label)]\<rparr>,
     \<lparr>op_type = ''target_assign'',
      op_inputs = [(''X'', PVar (tmp g 3 (vdtype gt_label))),
                   (''MatchIndices'', PVar (tmp g 12 ''int32'')),
                   (''NegIndices'', PVar (tmp g 11 ''int32''))],
      op_outputs = [(''Out'', tmp g 16 (vdtype gt_label)), (''OutWeight'', tmp g 17 ''float32'')],
      op_attrs = [(''mismatch_value'', background_label)]\<rparr>,
     \<lparr>op_type = ''reshape'',
      op_inputs = [(''x'', PVar (tmp g 16 (vdtype gt_label)))],
      op_outputs = [(''Out'', tmp g 18 (vdtype gt_label))],
      op_attrs = [(''shape'',
                   PList [PInt (- 1), PInt (last (shape (tmp g 16 (vdtype gt_label))))])]\<rparr>,
     \<lparr>op_type = ''cast'',
      op_inputs = [(''x'', PVar (tmp g 18 (vdtype gt_label)))],
      op_outputs = [(''Out'', tmp g 19 ''int64'')],
      op_attrs = [(''dtype'', PStr ''int64'')]\<rparr>,
     \<lparr>op_type = ''softmax_with_cross_entropy'',
      op_inputs = [(''logits'', PVar (tmp g 6 (vdtype confidence))),
                   (''label'', PVar (tmp g 19 ''int64''))],
      op_outputs = [(''Out'', tmp g 20 (vdtype confidence))], op_attrs = []\<rparr>,
     \<lparr>op_type = ''reshape'',
      op_inputs = [(''x'', PVar (tmp g 17 ''float32''))],
      op_outputs = [(''Out'', tmp g 21 ''float32'')],
      op_attrs = [(''shape'', PList [PInt (- 1), PInt (last (shape (tmp g 17 ''float32'')))])]\<rparr>,
     \<lparr>op_type = ''elementwise_mul'',
      op_inputs = [(''x'', PVar (tmp g 20 (vdtype confidence))),
                   (''y'', PVar (tmp g 21 ''float32''))],
      op_outputs = [(''Out'', tmp g 22 (vdtype confidence))], op_attrs = []\<rparr>,
     \<lparr>op_type = ''reshape'',
      op_inputs = [(''x'', PVar location)],
      op_outputs = [(''Out'', tmp g 23 (vdtype location))],
      op_attrs = [(''shape'', PList [PInt (- 1), PInt (last (shape location))])]\<rparr>,
     \<lparr>op_type = ''reshape'',
      op_inputs = [(''x'', PVar (tmp g 14 (vdtype pb)))],
      op_outputs = [(''Out'', tmp g 24 (vdtype pb))],
      op_attrs = [(''shape'', PList [PInt (- 1), PInt (last (shape (tmp g 14 (vdtype pb))))])]\<rparr>,
     \<lparr>op_type = ''smooth_l1'',
      op_inputs = [(''x'', PVar (tmp g 23 (vdtype location))),
                   (''y'', PVar (tmp g 24 (vdtype pb)))],
      op_outputs = [(''Out'', tmp g 25 (vdtype location))], op_attrs = []\<rparr>,
     \<lparr>op_type = ''reshape'',
      op_inputs = [(''x'', PVar (tmp g 15 ''float32''))],
      op_outputs = [(''Out'', tmp g 26 ''float32'')],
      op_attrs = [(''shape'', PList [PInt (- 1), PInt (last (shape (tmp g 15 ''float32'')))])]\<rparr>,
     \<lparr>op_type = ''elementwise_mul'',
      op_inputs = [(''x'', PVar (tmp g 25 (vdtype location))),
                   (''y'', PVar (tmp g 26 ''float32''))],
      op_outputs = [(''Out'', tmp g 27 (vdtype location))], op_attrs = []\<rparr>,
     \<lparr>op_type = ''elementwise_mul'',
      op_inputs = [(''x'', PFloat conf_loss_weight),
                   (''y'', PVar (tmp g 22 (vdtype confidence)))],
      op_outputs = [(''Out'', tmp g 28 (vdtype confidence))], op_attrs = []\<rparr>,
     \<lparr>op_type = ''elementwise_mul'',
      op_inputs = [(''x'', PFloat loc_loss_weight),
                   (''y'', PVar (tmp g 27 (vdtype location)))],
      op_outputs = [(''Out'', tmp g 29 (vdtype location))], op_attrs = []\<rparr>,
     \<lparr>op_type = ''elementwise_add'',
      op_inputs = [(''x'', PVar (tmp g 28 (vdtype confidence))),
                   (''y'', PVar (tmp g 29 (vdtype location)))],
      op_outputs = [(''Out'', tmp g 30 (vdtype confidence))], op_attrs = []\<rparr>]"
proof -
  from ssd_loss_Inr_start [OF assms] obtain a b c
    where m: "mining_type = PStr ''max_negative''" and s: "shape confidence = [a, b, c]"
    by blast
  show ?thesis
    using assms unfolding ssd_loss_def
    apply (simp only: m s list.case if_False simp_thms)
    apply (clarsimp simp: run_simps simp del: One_nat_def)
    apply (simp only: tmp_def numeral_eq_Suc pred_numeral_simps Num.BitM.simps add_Suc_right add_0_right)
    apply (simp add: new_ops_ext s del: One_nat_def)
    done
qed



lemma tmp_eq_iff: "tmp g k d = tmp g k' d' \<longleftrightarrow> k = k' \<and> d = d'"
  by (auto simp: tmp_def)

lemma ssd_flow_conf:
  assumes "ssd_loss shape location confidence gt_box gt_label pb pbv
       background_label overlap_threshold neg_pos_ratio neg_overlap loc_loss_weight
       conf_loss_weight match_type mining_type sample_size g = (Inr loss, g')"
  shows
    "yields (new_ops g g') ''elementwise_add''
        [(''x'', PVar (tmp g 28 (vdtype confidence))), (''y'', PVar (tmp g 29 (vdtype location)))]
        ''Out'' loss
     \<and> yields (new_ops g g') ''elementwise_mul''
        [(''x'', PFloat conf_loss_weight), (''y'', PVar (tmp g 22 (vdtype confidence)))]
        ''Out'' (tmp g 28 (vdtype confidence))
     \<and> yields (new_ops g g') ''elementwise_mul''
        [(''x'', PFloat loc_loss_weight), (''y'', PVar (tmp g 27 (vdtype location)))]
        ''Out'' (tmp g 29 (vdtype location))
     \<and> yields (new_ops g g') ''elementwise_mul''
        [(''x'', PVar (tmp g 20 (vdtype confidence))), (''y'', PVar (tmp g 21 ''float32''))]
        ''Out'' (tmp g 22 (vdtype confidence))
     \<and> yields (new_ops g g') ''softmax_with_cross_entropy''
        [(''logits'', PVar (tmp g 6 (vdtype confidence))), (''label'', PVar (tmp g 19 ''int64''))]
        ''Out'' (tmp g 20 (vdtype confidence))
     \<and> yields (new_ops g g') ''reshape'' [(''x'', PVar confidence)] ''Out'' (tmp g 6 (vdtype confidence))
     \<and> yields (new_ops g g') ''cast'' [(''x'', PVar (tmp g 18 (vdtype gt_label)))] ''Out'' (tmp g 19 ''int64'')
     \<and> yields (new_ops g g') ''reshape'' [(''x'', PVar (tmp g 16 (vdtype gt_label)))] ''Out''
          (tmp g 18 (vdtype gt_label))
     \<and> yields (new_ops g g') ''reshape'' [(''x'', PVar (tmp g 17 ''float32''))] ''Out'' (tmp g 21 ''float32'')
     \<and> yields (new_ops g g') ''target_assign'' [(''X'', PVar (tmp g 3 (vdtype gt_label))),
                  (''MatchIndices'', PVar (tmp g 12 ''int32'')),
                  (''NegIndices'', PVar (tmp g 11 ''int32''))] ''Out'' (tmp g 16 (vdtype gt_label))
     \<and> yields (new_ops g g') ''target_assign'' [(''X'', PVar (tmp g 3 (vdtype gt_label))),
                  (''MatchIndices'', PVar (tmp g 12 ''int32'')),
                  (''NegIndices'', PVar (tmp g 11 ''int32''))] ''OutWeight'' (tmp g 17 ''float32'')
     \<and> map_of [(''X'', PVar (tmp g 3 (vdtype gt_label))),
                  (''MatchIndices'', PVar (tmp g 12 ''int32'')),
                  (''NegIndices'', PVar (tmp g 11 ''int32''))] ''NegIndices'' = Some (PVar (tmp g 11 ''int32''))"
  using ssd_loss_graph [OF assms] by (simp add: yields_def tmp_eq_iff)

lemma ssd_flow_loc:
  assumes "ssd_loss shape location confidence gt_box gt_label pb pbv
       background_label overlap_threshold neg_pos_ratio neg_overlap loc_loss_weight
       conf_loss_weight match_type mining_type sample_size g = (Inr loss, g')"
  shows
    "yields (new_ops g g') ''elementwise_mul''
        [(''x'', PVar (tmp g 25 (vdtype location))), (''y'', PVar (tmp g 26 ''float32''))]
        ''Out'' (tmp g 27 (vdtype location))
     \<and> yields (new_ops g g') ''smooth_l1''
        [(''x'', PVar (tmp g 23 (vdtype location))), (''y'', PVar (tmp g 24 (vdtype pb)))]
        ''Out'' (tmp g 25 (vdtype location))
     \<and> yields (new_ops g g') ''reshape'' [(''x'', PVar location)] ''Out'' (tmp g 23 (vdtype location))
     \<and> yields (new_ops g g') ''reshape'' [(''x'', PVar (tmp g 14 (vdtype pb)))] ''Out'' (tmp g 24 (vdtype pb))
     \<and> yields (new_ops g g') ''reshape'' [(''x'', PVar (tmp g 15 ''float32''))] ''Out'' (tmp g 26 ''float32'')
     \<and> yields (new_ops g g') ''target_assign'' [(''X'', PVar (tmp g 13 (vdtype pb))),
                  (''MatchIndices'', PVar (tmp g 12 ''int32'')),
                  (''NegIndices'', PNone)] ''Out'' (tmp g 14 (vdtype pb))
     \<and> yields (new_ops g g') ''target_assign'' [(''X'', PVar (tmp g 13 (vdtype pb))),
                  (''MatchIndices'', PVar (tmp g 12 ''int32'')),
                  (''NegIndices'', PNone)] ''OutWeight'' (tmp g 15 ''float32'')
     \<and> map_of [(''X'', PVar (tmp g 13 (vdtype pb))),
                  (''MatchIndices'', PVar (tmp g 12 ''int32'')),
                  (''NegIndices'', PNone)] ''X'' = Some (PVar (tmp g 13 (vdtype pb)))
     \<and> yields (new_ops g g') ''box_coder''
           [(''prior_box'', PVar pb), (''prior_box_var'', pbv), (''target_box'', PVar gt_box)]
           ''Out'' (tmp g 13 (vdtype pb))
     \<and> (new_ops g g') \<noteq> []
     \<and> op_type (last (new_ops g g')) = ''elementwise_add''
     \<and> op_outputs (last (new_ops g g')) = [(''Out'', loss)]"
  using ssd_loss_graph [OF assms] by (simp add: yields_def tmp_eq_iff)


lemma ssd_shape:
  assumes "ssd_loss shape location confidence gt_box gt_label pb pbv
       background_label overlap_threshold neg_pos_ratio neg_overlap loc_loss_weight
       conf_loss_weight match_type mining_type sample_size g = (Inr loss, g')"
    and rules: "list_all (shape_rule shape) (new_ops g g')"
    and conf: "shape confidence = [num, num_prior, num_class]"
    and pos: "0 < num_class"
  shows "shape loss = [num * num_prior, 1]"
proof -
  note G = ssd_loss_graph [OF assms(1)]
  let ?ns = "new_ops g g'"
  let ?dc = "vdtype confidence"
  have len: "length ?ns = 26"
    using G by simp
  have rule: "shape_rule shape (?ns ! k)" if "k < 26" for k
    using rules that len by (simp add: list_all_length)
  have r4: "shape (tmp g 6 ?dc) = [num * num_prior, num_class]"
    using rule [of 4] G pos
    by (simp add: shape_rule_def out_shape_def attr_def reshape_dims_def conf)
  have r15: "shape (tmp g 20 ?dc) = [num * num_prior, 1]"
    using rule [of 15] G r4
    by (simp add: shape_rule_def out_shape_def attr_def)
  have r17: "shape (tmp g 22 ?dc) = [num * num_prior, 1]"
    using rule [of 17] G r15
    by (simp add: shape_rule_def out_shape_def attr_def)
  have r23: "shape (tmp g 28 ?dc) = [num * num_prior, 1]"
    using rule [of 23] G r17
    by (simp add: shape_rule_def out_shape_def attr_def)
  have r25: "shape (tmp g 30 ?dc) = [num * num_prior, 1]"
    using rule [of 25] G r23
    by (simp add: shape_rule_def out_shape_def attr_def)
  show ?thesis
    using G r25 by simp
qed

lemma sample_shape_nonempty: "sample_shape v \<noteq> []"
proof -
  have "\<forall>s \<in> set sample_shapes. s \<noteq> []"
    by (simp add: sample_shapes_def)
  then show ?thesis
    by (simp add: sample_shape_def)
qed

lemma ssd_loss_returns:
  assumes "shape confidence = [a, b, c]" and "\<And>v. shape v \<noteq> []"
  shows "\<exists>loss g'. ssd_loss shape location confidence gt_box gt_label pb pbv
       background_label overlap_threshold neg_pos_ratio neg_overlap loc_loss_weight
       conf_loss_weight match_type (PStr ''max_negative'') sample_size g = (Inr loss, g')"
  unfolding ssd_loss_def
  apply (simp only: assms(1) list.case if_False simp_thms)
  apply (simp add: run_simps assms(2) del: One_nat_def)
  done

lemma sample_confidence: "sample_shape (V 1) = [2, 3, 5]"
  by (simp add: sample_shape_def sample_shapes_def V_def)

lemma sample_run:
  "\<exists>loss g'. ssd_loss sample_shape (V 0) (V 1) (V 2) (V 3) (V 4) (PVar (V 5)) (PInt 0)
      (PFloat 0.5) (PFloat 3) (PFloat 0.5) 1 1 (PStr ''per_prediction'')
      (PStr ''max_negative'') PNone G0 = (Inr loss, g')"
  by (rule ssd_loss_returns [of sample_shape "V 1", OF sample_confidence sample_shape_nonempty])

lemma sample_rules:
  assumes run: "ssd_loss sample_shape (V 0) (V 1) (V 2) (V 3) (V 4) (PVar (V 5)) (PInt 0)
      (PFloat 0.5) (PFloat 3) (PFloat 0.5) 1 1 (PStr ''per_prediction'')
      (PStr ''max_negative'') PNone G0 = (Inr loss, g')"
  shows "list_all (shape_rule sample_shape) (new_ops G0 g')"
  using ssd_loss_graph [OF run]
  by (simp add: shape_rule_def out_shape_def attr_def reshape_dims_def tmp_def
      sample_shape_def sample_shapes_def V_def G0_def)




text \<open>
  C2. The variable that \<^verbatim>\<open>ssd_loss\<close> returns is the output of the sum of
  \<^verbatim>\<open>conf_loss_weight * conf_loss\<close> and \<^verbatim>\<open>loc_loss_weight * loc_loss\<close>, where
  \<^verbatim>\<open>conf_loss\<close> is the softmax cross entropy of the reshaped confidence against the
  (reshaped and cast) labels of the final \<^verbatim>\<open>target_assign\<close>, times its reshaped weight,
  and \<^verbatim>\<open>loc_loss\<close> is \<^verbatim>\<open>smooth_l1\<close> of the reshaped location and the reshaped target
  boxes, times the reshaped weight of the regression \<^verbatim>\<open>target_assign\<close>. The sum is the
  last node appended: nothing reduces it. Where the runtime's shapes follow the rules of
  the operators and the confidence has the shape \<open>[num, num_prior, num_class]\<close> with
  classes, the result has the shape \<open>[num * num_prior, 1]\<close>.
\<close>

theorem ssd_loss_composition:
  assumes "ssd_loss shape location confidence gt_box gt_label pb pbv
       background_label overlap_threshold neg_pos_ratio neg_overlap loc_loss_weight
       conf_loss_weight match_type mining_type sample_size g = (Inr loss, g')"
  shows "\<exists>ns wc wl conf_loss loc_loss ce wconf conf2d label tl2d tl tcw cls_in neg
            sl wloc loc2d bbox2d tb tlw reg_in enc.
     ns = new_ops g g'
     \<and> yields ns ''elementwise_add'' [(''x'', PVar wc), (''y'', PVar wl)] ''Out'' loss
     \<and> yields ns ''elementwise_mul'' [(''x'', PFloat conf_loss_weight), (''y'', PVar conf_loss)]
           ''Out'' wc
     \<and> yields ns ''elementwise_mul'' [(''x'', PFloat loc_loss_weight), (''y'', PVar loc_loss)]
           ''Out'' wl
     \<and> yields ns ''elementwise_mul'' [(''x'', PVar ce), (''y'', PVar wconf)] ''Out'' conf_loss
     \<and> yields ns ''softmax_with_cross_entropy'' [(''logits'', PVar conf2d), (''label'', PVar label)]
           ''Out'' ce
     \<and> yields ns ''reshape'' [(''x'', PVar confidence)] ''Out'' conf2d
     \<and> yields ns ''cast'' [(''x'', PVar tl2d)] ''Out'' label
     \<and> yields ns ''reshape'' [(''x'', PVar tl)] ''Out'' tl2d
     \<and> yields ns ''reshape'' [(''x'', PVar tcw)] ''Out'' wconf
     \<and> yields ns ''target_assign'' cls_in ''Out'' tl
     \<and> yields ns ''target_assign'' cls_in ''OutWeight'' tcw
     \<and> map_of cls_in ''NegIndices'' = Some (PVar neg)
     \<and> yields ns ''elementwise_mul'' [(''x'', PVar sl), (''y'', PVar wloc)] ''Out'' loc_loss
     \<and> yields ns ''smooth_l1'' [(''x'', PVar loc2d), (''y'', PVar bbox2d)] ''Out'' sl
     \<and> yields ns ''reshape'' [(''x'', PVar location)] ''Out'' loc2d
     \<and> yields ns ''reshape'' [(''x'', PVar tb)] ''Out'' bbox2d
     \<and> yields ns ''reshape'' [(''x'', PVar tlw)] ''Out'' wloc
     \<and> yields ns ''target_assign'' reg_in ''Out'' tb
     \<and> yields ns ''target_assign'' reg_in ''OutWeight'' tlw
     \<and> map_of reg_in ''X'' = Some (PVar enc)
     \<and> yields ns ''box_coder''
           [(''prior_box'', PVar pb), (''prior_box_var'', pbv), (''target_box'', PVar gt_box)]
           ''Out'' enc
     \<and> ns \<noteq> []
     \<and> op_type (last ns) = ''elementwise_add''
     \<and> op_outputs (last ns) = [(''Out'', loss)]
     \<and> (list_all (shape_rule shape) ns \<longrightarrow>
          (\<forall>num num_prior num_class.
             shape confidence = [num, num_prior, num_class] \<and> 0 < num_class \<longrightarrow>
             shape loss = [num * num_prior, 1]))"
proof -
  note flow = ssd_flow_conf [OF assms] ssd_flow_loc [OF assms]
  have shp: "list_all (shape_rule shape) (new_ops g g') \<longrightarrow>
          (\<forall>num num_prior num_class.
             shape confidence = [num, num_prior, num_class] \<and> 0 < num_class \<longrightarrow>
             shape loss = [num * num_prior, 1])"
    using ssd_shape [OF assms] by blast
  show ?thesis
    using flow shp
    apply -
    apply (rule exI [of _ "new_ops g g'"])
    apply (rule exI [of _ "tmp g 28 (vdtype confidence)"])
    apply (rule exI [of _ "tmp g 29 (vdtype location)"])
    apply (rule exI [of _ "tmp g 22 (vdtype confidence)"])
    apply (rule exI [of _ "tmp g 27 (vdtype location)"])
    apply (rule exI [of _ "tmp g 20 (vdtype confidence)"])
    apply (rule exI [of _ "tmp g 21 ''float32''"])
    apply (rule exI [of _ "tmp g 6 (vdtype confidence)"])
    apply (rule exI [of _ "tmp g 19 ''int64''"])
    apply (rule exI [of _ "tmp g 18 (vdtype gt_label)"])
    apply (rule exI [of _ "tmp g 16 (vdtype gt_label)"])
    apply (rule exI [of _ "tmp g 17 ''float32''"])
    apply (rule exI [of _ "[(''X'', PVar (tmp g 3 (vdtype gt_label))),
                            (''MatchIndices'', PVar (tmp g 12 ''int32'')),
                            (''NegIndices'', PVar (tmp g 11 ''int32''))]"])
    apply (rule exI [of _ "tmp g 11 ''int32''"])
    apply (rule exI [of _ "tmp g 25 (vdtype location)"])
    apply (rule exI [of _ "tmp g 26 ''float32''"])
    apply (rule exI [of _ "tmp g 23 (vdtype location)"])
    apply (rule exI [of _ "tmp g 24 (vdtype pb)"])
    apply (rule exI [of _ "tmp g 14 (vdtype pb)"])
    apply (rule exI [of _ "tmp g 15 ''float32''"])
    apply (rule exI [of _ "[(''X'', PVar (tmp g 13 (vdtype pb))),
                            (''MatchIndices'', PVar (tmp g 12 ''int32'')),
                            (''NegIndices'', PNone)]"])
    apply (rule exI [of _ "tmp g 13 (vdtype pb)"])
    apply (simp only: simp_thms)
    done
qed

theorem ssd_loss_composition_witness:
  "\<exists>loss g'. ssd_loss sample_shape (V 0) (V 1) (V 2) (V 3) (V 4) (PVar (V 5)) (PInt 0)
      (PFloat 0.5) (PFloat 3) (PFloat 0.5) 1 1 (PStr ''per_prediction'')
      (PStr ''max_negative'') PNone G0 = (Inr loss, g')
    \<and> list_all (shape_rule sample_shape) (new_ops G0 g')
    \<and> sample_shape (V 1) = [2, 3, 5]
    \<and> sample_shape loss = [2 * 3, 1]
    \<and> op_type (last (new_ops G0 g')) = ''elementwise_add''"
proof -
  from sample_run obtain loss g' where run:
    "ssd_loss sample_shape (V 0) (V 1) (V 2) (V 3) (V 4) (PVar (V 5)) (PInt 0)
      (PFloat 0.5) (PFloat 3) (PFloat 0.5) 1 1 (PStr ''per_prediction'')
      (PStr ''max_negative'') PNone G0 = (Inr loss, g')"
    by blast
  note rules = sample_rules [OF run]
  from ssd_loss_composition [OF run] rules sample_confidence
  have "sample_shape loss = [2 * 3, 1] \<and> op_type (last (new_ops G0 g')) = ''elementwise_add''"
    by clarsimp
  then show ?thesis
    by (rule_tac x = loss in exI, rule_tac x = g' in exI) (insert run rules sample_confidence, simp)
qed

lemma bnd_iff: "bnd m f g = (r, g') \<longleftrightarrow>
    (\<exists>e. m g = (Inl e, g') \<and> r = Inl e) \<or> (\<exists>x g1. m g = (Inr x, g1) \<and> f x g1 = (r, g'))"
  by (auto simp: bnd_def split: prod.splits sum.splits)

lemma ok_iff: "ok m g = (r, g') \<longleftrightarrow> (\<exists>x. m g = (x, g') \<and> r = Inr x)"
  by (auto simp: ok_def split: prod.splits)

lemma reshape_to_2d_iff: "reshape_to_2d shape v g = (r, g') \<longleftrightarrow>
   (shape v = [] \<and> r = Inl IndexError \<and> g' = g) \<or>
   (shape v \<noteq> [] \<and> (\<exists>x. reshape v (PList [PInt (- 1), PInt (last (shape v))]) g = (x, g') \<and> r = Inr x))"
  by (auto simp: reshape_to_2d_def lift_def ok_def split: prod.splits)

lemmas any_simps = bnd_iff ok_iff reshape_to_2d_iff iou_similarity_def box_coder_def
  reshape_def cast_def softmax_with_cross_entropy_def smooth_l1_def elementwise_def
  layer_ext create_ext append_ext ext_ext uniq_ext bipartite_match_def target_assign_def
  mine_hard_examples_def Let_def

lemma ssd_loss_early:
  assumes "\<not> (mining_type = PStr ''max_negative'' \<and> (\<exists>a b c. shape confidence = [a, b, c]))"
  shows "ssd_loss shape location confidence gt_box gt_label pb pbv
       background_label overlap_threshold neg_pos_ratio neg_overlap loc_loss_weight
       conf_loss_weight match_type mining_type sample_size g = (Inl ValueError, g)"
  using assms by (auto simp: ssd_loss_def lift_def split: list.splits)


lemma ssd_loss_mine_attrs:
  assumes "ssd_loss shape location confidence gt_box gt_label pb pbv
       background_label overlap_threshold neg_pos_ratio neg_overlap loc_loss_weight
       conf_loss_weight match_type mining_type sample_size g = (r, g')"
  shows "list_all (\<lambda>n. op_type n = ''mine_hard_examples'' \<longrightarrow>
            attr n ''neg_dist_threshold'' = Some neg_pos_ratio) (new_ops g g')"
proof (cases "mining_type = PStr ''max_negative'' \<and> (\<exists>a b c. shape confidence = [a, b, c])")
  case True
  then obtain a b c
    where m: "mining_type = PStr ''max_negative''" and s: "shape confidence = [a, b, c]"
    by blast
  show ?thesis
    using assms unfolding ssd_loss_def
    apply (simp only: m s list.case if_False simp_thms)
    apply (simp add: any_simps del: One_nat_def)
    apply (auto simp add: new_ops_ext attr_def)
    done
next
  case False
  from ssd_loss_early [where shape = shape and confidence = confidence, OF False] assms have "g' = g"
    by simp
  then show ?thesis by (simp add: new_ops_def)
qed

text \<open>
  C4. Whatever a call of \<^verbatim>\<open>ssd_loss\<close> does (return or raise), every
  \<^verbatim>\<open>mine_hard_examples\<close> operator it has appended has its attribute
  \<^verbatim>\<open>neg_dist_threshold\<close> set to the argument \<^verbatim>\<open>neg_pos_ratio\<close>, and a call that returns
  has appended exactly one; the argument \<^verbatim>\<open>neg_overlap\<close> has no effect: the same call
  with another \<^verbatim>\<open>neg_overlap\<close> gives the same result and the same graph.
\<close>

theorem ssd_loss_neg_overlap_unused:
  assumes "ssd_loss shape location confidence gt_box gt_label pb pbv
       background_label overlap_threshold neg_pos_ratio neg_overlap loc_loss_weight
       conf_loss_weight match_type mining_type sample_size g = (r, g')"
  shows "ssd_loss shape location confidence gt_box gt_label pb pbv
       background_label overlap_threshold neg_pos_ratio neg_overlap2 loc_loss_weight
       conf_loss_weight match_type mining_type sample_size g = (r, g')
    \<and> list_all (\<lambda>n. op_type n = ''mine_hard_examples'' \<longrightarrow>
          attr n ''neg_dist_threshold'' = Some neg_pos_ratio) (new_ops g g')
    \<and> (\<forall>loss. r = Inr loss \<longrightarrow>
          (\<exists>mine. filter (\<lambda>n. op_type n = ''mine_hard_examples'') (new_ops g g') = [mine]
             \<and> attr mine ''neg_dist_threshold'' = Some neg_pos_ratio
             \<and> attr mine ''neg_pos_ratio'' = Some neg_pos_ratio))"
proof (intro conjI allI impI)
  show "ssd_loss shape location confidence gt_box gt_label pb pbv
       background_label overlap_threshold neg_pos_ratio neg_overlap2 loc_loss_weight
       conf_loss_weight match_type mining_type sample_size g = (r, g')"
    using assms by (simp add: ssd_loss_def)
  show "list_all (\<lambda>n. op_type n = ''mine_hard_examples'' \<longrightarrow>
          attr n ''neg_dist_threshold'' = Some neg_pos_ratio) (new_ops g g')"
    by (rule ssd_loss_mine_attrs [OF assms])
next
  fix loss assume "r = Inr loss"
  with assms have run: "ssd_loss shape location confidence gt_box gt_label pb pbv
       background_label overlap_threshold neg_pos_ratio neg_overlap loc_loss_weight
       conf_loss_weight match_type mining_type sample_size g = (Inr loss, g')"
    by simp
  show "\<exists>mine. filter (\<lambda>n. op_type n = ''mine_hard_examples'') (new_ops g g') = [mine]
             \<and> attr mine ''neg_dist_threshold'' = Some neg_pos_ratio
             \<and> attr mine ''neg_pos_ratio'' = Some neg_pos_ratio"
    using ssd_loss_graph [OF run] by (simp add: attr_def)
qed

theorem ssd_loss_neg_overlap_unused_witness:
  "\<exists>loss g' mine.
      ssd_loss sample_shape (V 0) (V 1) (V 2) (V 3) (V 4) (PVar (V 5)) (PInt 0)
        (PFloat 0.5) (PFloat 3) (PFloat 0.5) 1 1 (PStr ''per_prediction'')
        (PStr ''max_negative'') PNone G0 = (Inr loss, g')
    \<and> ssd_loss sample_shape (V 0) (V 1) (V 2) (V 3) (V 4) (PVar (V 5)) (PInt 0)
        (PFloat 0.5) (PFloat 3) (PFloat 0.25) 1 1 (PStr ''per_prediction'')
        (PStr ''max_negative'') PNone G0 = (Inr loss, g')
    \<and> filter (\<lambda>n. op_type n = ''mine_hard_examples'') (new_ops G0 g') = [mine]
    \<and> attr mine ''neg_dist_threshold'' = Some (PFloat 3)"
proof -
  from sample_run obtain loss g' where run:
    "ssd_loss sample_shape (V 0) (V 1) (V 2) (V 3) (V 4) (PVar (V 5)) (PInt 0)
      (PFloat 0.5) (PFloat 3) (PFloat 0.5) 1 1 (PStr ''per_prediction'')
      (PStr ''max_negative'') PNone G0 = (Inr loss, g')"
    by blast
  from ssd_loss_neg_overlap_unused [OF run, of "PFloat 0.25"] obtain mine where
    "ssd_loss sample_shape (V 0) (V 1) (V 2) (V 3) (V 4) (PVar (V 5)) (PInt 0)
        (PFloat 0.5) (PFloat 3) (PFloat 0.25) 1 1 (PStr ''per_prediction'')
        (PStr ''max_negative'') PNone G0 = (Inr loss, g')"
    "filter (\<lambda>n. op_type n = ''mine_hard_examples'') (new_ops G0 g') = [mine]"
    "attr mine ''neg_dist_threshold'' = Some (PFloat 3)"
    by blast
  with run show ?thesis
    by (rule_tac x = loss in exI, rule_tac x = g' in exI, rule_tac x = mine in exI) simp
qed




section \<open>Properties of prior\_box\<close>







end
